theory Spec2Isabelle
  imports Complex_Main
begin

section \<open>Forced damped pendulum: embedding of scriptProblem2.py\<close>

text \<open>
  The script computes on IEEE doubles through numpy. The embedding works over the
  real numbers: every float is read as the real it denotes, \<open>np.pi\<close> as \<open>pi\<close>,
  \<open>np.sqrt\<close>, \<open>np.sin\<close>, \<open>np.cos\<close> as the real functions, and no rounding is
  modelled. Python integers are \<open>int\<close>, numpy arrays are lists.
\<close>

subsection \<open>Errors\<close>

datatype error =
    ZeroDivisionError  \<comment> \<open>a zero divisor: Python raises on its own numbers, numpy yields inf or nan;
                           either way the result is no real number\<close>
  | IndexError         \<comment> \<open>numpy indexing out of bounds\<close>

subsection \<open>Module constants (lines 6 to 13)\<close>

text \<open>
  The one-letter names of the script are suffixed, since the functions below take
  parameters of the same names.
\<close>

definition g_glob :: real where
  "g_glob = 9.8"

definition l_glob :: real where
  "l_glob = 1.0"

definition m_glob :: real where
  "m_glob = 1.0"

definition omega_0 :: real where
  "omega_0 = sqrt (g_glob / l_glob)"

definition zeta :: real where
  "zeta = 0.1"

definition b_glob :: real where
  "b_glob = 2 * m_glob * zeta * omega_0"

definition omega_d_glob :: real where
  "omega_d_glob = omega_0"

definition T_glob :: real where
  "T_glob = 2 * pi / omega_d_glob"

subsection \<open>numpy primitives\<close>

text \<open>
  \<open>np.mod(x, y)\<close> is the remainder of floored division: it carries the sign of the
  divisor. The script calls it with the divisor \<open>2 * np.pi\<close> only; a zero divisor
  (nan in numpy) never occurs there.
\<close>

definition np_mod :: "real \<Rightarrow> real \<Rightarrow> real" where
  "np_mod x y = x - y * of_int \<lfloor>x / y\<rfloor>"

text \<open>
  \<open>np.arange(start, stop, step)\<close> has \<open>ceil((stop - start) / step)\<close> elements (none
  when that is not positive), the \<open>i\<close>-th being \<open>start + i * step\<close>: on floats and on
  integers.
\<close>

definition np_arange :: "real \<Rightarrow> real \<Rightarrow> real \<Rightarrow> error + real list" where
  "np_arange start stop step =
     (if step = 0 then Inl ZeroDivisionError
      else Inr (map (\<lambda>i. start + real i * step) [0..<nat \<lceil>(stop - start) / step\<rceil>]))"

definition np_arange_int :: "int \<Rightarrow> int \<Rightarrow> int \<Rightarrow> error + int list" where
  "np_arange_int start stop step =
     (if step = 0 then Inl ZeroDivisionError
      else Inr (map (\<lambda>i. start + int i * step) [0..<nat (- ((start - stop) div step))]))"

text \<open>
  \<open>xs[idx]\<close> with an integer array \<open>idx\<close>: every index must lie in \<open>[-n, n)\<close>, a
  negative one counts from the end, any other raises IndexError.
\<close>

definition np_take :: "'a list \<Rightarrow> int list \<Rightarrow> error + 'a list" where
  "np_take xs idx =
     (let n = int (length xs)
      in if list_all (\<lambda>i. - n \<le> i \<and> i < n) idx
         then Inr (map (\<lambda>i. xs ! nat (if i < 0 then i + n else i)) idx)
         else Inl IndexError)"

text \<open>
  Python's \<open>len(range(lo, hi, step))\<close>, as CPython computes it; \<open>range\<close> refuses a
  zero step, for which the value here is 0.
\<close>

definition py_range_len :: "int \<Rightarrow> int \<Rightarrow> int \<Rightarrow> nat" where
  "py_range_len lo hi step =
     (if 0 < step then (if lo < hi then nat ((hi - lo - 1) div step + 1) else 0)
      else if step < 0 then (if hi < lo then nat ((lo - hi - 1) div (- step) + 1) else 0)
      else 0)"

subsection \<open>The ODE system (lines 17 to 21)\<close>

type_synonym state = "real \<times> real"

definition pendulum_deriv ::
  "state \<Rightarrow> real \<Rightarrow> real \<Rightarrow> real \<Rightarrow> real \<Rightarrow> real \<Rightarrow> real \<Rightarrow> real \<Rightarrow> error + state" where
  "pendulum_deriv state t b m g l F0 omega_d =
     (case state of (theta, theta_dot) \<Rightarrow>
        if m = 0 \<or> l = 0 then Inl ZeroDivisionError
        else
          let dtheta_dt = theta_dot;
              dtheta_dot_dt =
                - b / m * theta_dot - g / l * sin theta + F0 / (m * l) * cos (omega_d * t)
          in Inr (dtheta_dt, dtheta_dot_dt))"

subsection \<open>The integrator\<close>

text \<open>
  \<open>scipy.integrate.odeint\<close> is a library routine, not code of the script. It is a
  parameter of the model: a function of the right-hand side, the initial state and the
  time grid that returns one state per grid point, or the error the right-hand side
  raised.
\<close>

type_synonym rhs = "state \<Rightarrow> real \<Rightarrow> error + state"

type_synonym odeint_fn = "rhs \<Rightarrow> state \<Rightarrow> real list \<Rightarrow> error + state list"

text \<open>
  What the script relies on: for a right-hand side that never fails and a non-empty
  grid, the solution array has one row per grid point (scipy documents the shape
  \<open>(len(t), len(y0))\<close>).
\<close>

definition odeint_contract :: "odeint_fn \<Rightarrow> bool" where
  "odeint_contract odeint \<longleftrightarrow>
     (\<forall>f y0 ts. (\<forall>y t. \<exists>d. f y t = Inr d) \<and> ts \<noteq> [] \<longrightarrow>
        (\<exists>sol. odeint f y0 ts = Inr sol \<and> length sol = length ts))"

text \<open>
  A concrete integrator, the explicit Euler method, to instantiate the parameter in the
  examples.
\<close>

fun euler_odeint :: odeint_fn where
  "euler_odeint f y [] = Inr []"
| "euler_odeint f y [t] = Inr [y]"
| "euler_odeint f y (t # t' # ts) =
     (case f y t of
        Inl e \<Rightarrow> Inl e
      | Inr d \<Rightarrow>
          (case euler_odeint f (fst y + (t' - t) * fst d, snd y + (t' - t) * snd d) (t' # ts) of
             Inl e \<Rightarrow> Inl e
           | Inr sol \<Rightarrow> Inr (y # sol)))"

subsection \<open>Simulation (lines 25 to 33)\<close>

text \<open>
  Lines 26 and 27. \<open>T / 0\<close> on a numpy float is inf, which the reals do not have: the
  model stops there with an error value.
\<close>

definition time_grid :: "real \<Rightarrow> int \<Rightarrow> error + real list" where
  "time_grid t_max points_per_period =
     (if points_per_period = 0 then Inl ZeroDivisionError
      else
        let dt = T_glob / real_of_int points_per_period
        in np_arange 0 (t_max * T_glob) dt)"

text \<open>Line 32, for one element of the array \<open>theta\<close>.\<close>

definition theta_mod_of :: "real \<Rightarrow> real" where
  "theta_mod_of theta = np_mod (theta + pi) (2 * pi) - pi"

text \<open>The right-hand side that line 29 hands to the integrator.\<close>

definition pendulum_rhs :: "real \<Rightarrow> rhs" where
  "pendulum_rhs F0 = (\<lambda>state t. pendulum_deriv state t b_glob m_glob g_glob l_glob F0 omega_d_glob)"

definition simulate ::
  "odeint_fn \<Rightarrow> real \<Rightarrow> real \<Rightarrow> int \<Rightarrow> error + (real list \<times> real list \<times> real list \<times> real list)" where
  "simulate odeint F0 t_max points_per_period =
     (case time_grid t_max points_per_period of
        Inl e \<Rightarrow> Inl e
      | Inr t \<Rightarrow>
          (let state0 = (0, 0)
           in case odeint (pendulum_rhs F0) state0 t of
                Inl e \<Rightarrow> Inl e
              | Inr sol \<Rightarrow>
                  (let theta = map fst sol;
                       theta_dot = map snd sol;
                       theta_mod = map theta_mod_of theta
                   in Inr (t, theta, theta_dot, theta_mod))))"

subsection \<open>Stroboscopic sampling and plotting (lines 37 to 62)\<close>

text \<open>
  Lines 53 and 55 with the literal 100 (offset and stride) and \<open>len(t)\<close> as
  parameters: the index array \<open>np.arange(offset, N, P)\<close> applied to an array.
\<close>

definition stroboscopic_sample :: "'a list \<Rightarrow> int \<Rightarrow> int \<Rightarrow> int \<Rightarrow> error + 'a list" where
  "stroboscopic_sample xs N P offset =
     (case np_arange_int offset N P of
        Inl e \<Rightarrow> Inl e
      | Inr poincare_idx \<Rightarrow> np_take xs poincare_idx)"

text \<open>
  \<open>plot_results\<close> returns nothing; the model returns the arrays it hands to the three
  \<open>plt.plot\<close> calls: the time series, the phase diagram and the Poincare section.
\<close>

definition plot_results ::
  "odeint_fn \<Rightarrow> real \<Rightarrow>
     error + ((real list \<times> real list) \<times> (real list \<times> real list) \<times> (real list \<times> real list))" where
  "plot_results odeint F0 =
     (case simulate odeint F0 100 100 of
        Inl e \<Rightarrow> Inl e
      | Inr (t, theta, theta_dot, theta_mod) \<Rightarrow>
          (case stroboscopic_sample theta_mod (int (length t)) 100 100 of
             Inl e \<Rightarrow> Inl e
           | Inr pm \<Rightarrow>
               (case stroboscopic_sample theta_dot (int (length t)) 100 100 of
                  Inl e \<Rightarrow> Inl e
                | Inr pd \<Rightarrow>
                    Inr ((take 1000 t, take 1000 theta), (theta_mod, theta_dot), (pm, pd)))))"

subsection \<open>Bifurcation diagram (lines 66 to 80)\<close>





section \<open>Properties\<close>

subsection \<open>Floored remainder and angle normalization\<close>


lemma np_mod_small:
  assumes "0 \<le> x" and "x < y"
  shows "np_mod x y = x"
proof -
  have "0 < y" using assms by linarith
  have "\<lfloor>x / y\<rfloor> = 0"
    using assms \<open>0 < y\<close> by (simp add: floor_eq_iff)
  then show ?thesis by (simp add: np_mod_def)
qed




lemma theta_mod_of_0: "theta_mod_of 0 = 0"
  by (simp add: theta_mod_of_def np_mod_small)


subsection \<open>The time grid\<close>

lemma omega_0_pos: "0 < omega_0"
  by (simp add: omega_0_def g_glob_def l_glob_def)

lemma T_glob_pos: "0 < T_glob"
  using omega_0_pos by (simp add: T_glob_def omega_d_glob_def)

lemma time_grid_eq:
  assumes "ppp \<noteq> 0"
  shows "time_grid t_max ppp =
         Inr (map (\<lambda>i. real i * (T_glob / real_of_int ppp)) [0..<nat \<lceil>t_max * real_of_int ppp\<rceil>])"
proof -
  have "T_glob / real_of_int ppp \<noteq> 0"
    using assms T_glob_pos by simp
  moreover have "t_max * T_glob / (T_glob / real_of_int ppp) = t_max * real_of_int ppp"
    using T_glob_pos by simp
  ultimately show ?thesis
    by (simp add: time_grid_def np_arange_def Let_def assms)
qed

subsection \<open>A run on the smallest grid\<close>

lemma simulate_euler_one_point: "simulate euler_odeint 1 1 1 = Inr ([0], [0], [0], [0])"
  by (simp add: simulate_def time_grid_eq theta_mod_of_0)


lemma time_grid_Inr:
  assumes "ppp \<noteq> 0"
  shows "\<exists>ts. time_grid t_max ppp = Inr ts \<and>
              length ts = nat \<lceil>t_max * real_of_int ppp\<rceil> \<and>
              (\<forall>i < length ts. ts ! i = real i * (T_glob / real_of_int ppp))"
  by (simp add: time_grid_eq [OF assms])


subsection \<open>The integrator and the run\<close>

lemma pendulum_rhs_total: "\<exists>d. pendulum_rhs F0 y t = Inr d"
  by (cases y) (simp add: pendulum_rhs_def pendulum_deriv_def m_glob_def l_glob_def)

lemma euler_odeint_length:
  "(\<forall>y t. \<exists>d. f y t = Inr d) \<Longrightarrow>
   \<exists>sol. euler_odeint f y0 ts = Inr sol \<and> length sol = length ts"
proof (induction f y0 ts rule: euler_odeint.induct)
  case (1 f y)
  show ?case by simp
next
  case (2 f y t)
  show ?case by simp
next
  case (3 f y t t' ts)
  obtain d where d: "f y t = Inr d"
    using "3.prems" by blast
  obtain sol where sol:
    "euler_odeint f (fst y + (t' - t) * fst d, snd y + (t' - t) * snd d) (t' # ts) = Inr sol"
    "length sol = length (t' # ts)"
    using "3.IH" [OF d "3.prems"] by blast
  show ?case
    using d sol by simp
qed

lemma euler_odeint_contract: "odeint_contract euler_odeint"
  unfolding odeint_contract_def using euler_odeint_length by blast

lemma simulate_unfold:
  assumes "time_grid t_max ppp = Inr ts"
  shows "simulate odeint F0 t_max ppp =
         (case odeint (pendulum_rhs F0) (0, 0) ts of
            Inl e \<Rightarrow> Inl e
          | Inr sol \<Rightarrow> Inr (ts, map fst sol, map snd sol, map theta_mod_of (map fst sol)))"
  by (simp add: simulate_def assms Let_def split: sum.split)

lemma simulate_200:
  assumes "odeint_contract odeint"
  shows "\<exists>t theta theta_dot theta_mod.
           simulate odeint F0 200 100 = Inr (t, theta, theta_dot, theta_mod) \<and>
           length t = 20000 \<and> length theta = 20000 \<and>
           length theta_dot = 20000 \<and> length theta_mod = 20000"
proof -
  obtain ts where ts: "time_grid 200 100 = Inr ts" "length ts = nat \<lceil>200 * real_of_int 100\<rceil>"
    using time_grid_Inr [of 100 200] by auto
  have len: "length ts = 20000"
    using ts(2) by simp
  then have "ts \<noteq> []"
    by auto
  then obtain sol where sol: "odeint (pendulum_rhs F0) (0, 0) ts = Inr sol" "length sol = length ts"
    using assms pendulum_rhs_total unfolding odeint_contract_def by blast
  have "simulate odeint F0 200 100 = Inr (ts, map fst sol, map snd sol, map theta_mod_of (map fst sol))"
    by (simp add: simulate_unfold [OF ts(1)] sol(1))
  then show ?thesis
    using sol(2) len by simp
qed

subsection \<open>Index arrays\<close>

lemma np_arange_int_sweep:
  "np_arange_int (100 * 100) (200 * 100) 100 = Inr (map (\<lambda>k. 10000 + int k * 100) [0..<100])"
  by (simp add: np_arange_int_def)

lemma sweep_idx_bounds:
  assumes "i \<in> set (map (\<lambda>k. 10000 + int k * 100) [0..<100])"
  shows "0 \<le> i" and "i < 20000"
  using assms by auto

lemma np_take_in_bounds:
  assumes "\<forall>i \<in> set idx. 0 \<le> i \<and> i < int (length xs)"
  shows "np_take xs idx = Inr (map (\<lambda>i. xs ! nat i) idx)"
  using assms by (auto simp: np_take_def Let_def list_all_iff)

subsection \<open>Strided index arrays\<close>

lemma ceil_div_int:
  fixes a P :: int
  assumes "0 < P"
  shows "- ((- a) div P) = (a - 1) div P + 1"
proof -
  define q where "q = (a - 1) div P"
  define r where "r = (a - 1) mod P"
  have r: "0 \<le> r" "r < P"
    using assms by (simp_all add: r_def)
  have "a - 1 = P * q + r"
    by (simp add: q_def r_def)
  then have eq: "- a = P * (- (q + 1)) + (P - 1 - r)"
    by (simp add: algebra_simps)
  have "(- a) div P = - (q + 1)"
    using eq by (rule int_div_pos_eq) (use r in simp_all)
  then show ?thesis
    by (simp add: q_def)
qed

lemma arange_len_eq_range_len:
  assumes "0 < P"
  shows "nat (- ((offset - N) div P)) = py_range_len offset N P"
proof (cases "offset < N")
  case True
  have "- ((offset - N) div P) = (N - offset - 1) div P + 1"
    using ceil_div_int [OF assms, of "N - offset"] by simp
  then show ?thesis
    using assms True by (simp add: py_range_len_def)
next
  case False
  then have "0 \<le> (offset - N) div P"
    using assms by (simp add: pos_imp_zdiv_nonneg_iff)
  then show ?thesis
    using assms False by (simp add: py_range_len_def)
qed

lemma range_len_index_bound:
  assumes "0 < P" and "k < py_range_len offset N P"
  shows "offset + int k * P < N"
proof -
  have lt: "offset < N"
    using assms by (auto simp: py_range_len_def split: if_splits)
  then have "int k < (N - offset - 1) div P + 1"
    using assms by (simp add: py_range_len_def)
  then have "int k \<le> (N - offset - 1) div P"
    by simp
  then have "int k * P \<le> (N - offset - 1) div P * P"
    using assms(1) by (simp add: mult_right_mono)
  also have "\<dots> \<le> N - offset - 1"
    using assms(1) div_mult_mod_eq [of "N - offset - 1" P] pos_mod_sign [of P "N - offset - 1"]
    by linarith
  finally show ?thesis
    by simp
qed

lemma np_arange_int_eq:
  assumes "0 < P"
  shows "np_arange_int offset N P =
         Inr (map (\<lambda>k. offset + int k * P) [0..<py_range_len offset N P])"
  using assms by (simp add: np_arange_int_def arange_len_eq_range_len)

lemma stride_index_set:
  assumes "0 < P"
  shows "set (map (\<lambda>k. offset + int k * P) [0..<py_range_len offset N P]) =
         {i. offset \<le> i \<and> i < N \<and> (i - offset) mod P = 0}"
proof (intro set_eqI iffI)
  fix i
  assume "i \<in> set (map (\<lambda>k. offset + int k * P) [0..<py_range_len offset N P])"
  then obtain k where k: "k < py_range_len offset N P" "i = offset + int k * P"
    by auto
  have "i < N"
    using range_len_index_bound [OF assms k(1)] k(2) by simp
  moreover have "offset \<le> i"
    using assms k(2) by simp
  moreover have "(i - offset) mod P = 0"
    using k(2) by simp
  ultimately show "i \<in> {i. offset \<le> i \<and> i < N \<and> (i - offset) mod P = 0}"
    by simp
next
  fix i
  assume "i \<in> {i. offset \<le> i \<and> i < N \<and> (i - offset) mod P = 0}"
  then have i: "offset \<le> i" "i < N" "(i - offset) mod P = 0"
    by simp_all
  define k where "k = nat ((i - offset) div P)"
  have nonneg: "0 \<le> (i - offset) div P"
    using assms i(1) by (simp add: pos_imp_zdiv_nonneg_iff)
  have ik: "i = offset + int k * P"
    using i(3) nonneg div_mult_mod_eq [of "i - offset" P] by (simp add: k_def)
  have "(i - offset) div P \<le> (N - offset - 1) div P"
    using assms i(2) by (intro zdiv_mono1) simp_all
  then have "k < py_range_len offset N P"
    using assms i(1,2) nonneg by (simp add: py_range_len_def k_def)
  then show "i \<in> set (map (\<lambda>k. offset + int k * P) [0..<py_range_len offset N P])"
    using ik by auto
qed

lemma stride_index_sorted:
  assumes "0 < P"
  shows "sorted_wrt (<) (map (\<lambda>k. offset + int k * P) [0..<n])"
  using assms by (simp add: sorted_wrt_iff_nth_less)

subsection \<open>The sweep, the plot and degenerate grids\<close>



lemma stroboscopic_sample_eq:
  assumes "0 < P" and "0 \<le> offset" and "N \<le> int (length xs)"
  shows "stroboscopic_sample xs N P offset =
         Inr (map (\<lambda>k. xs ! nat (offset + int k * P)) [0..<py_range_len offset N P])"
proof -
  let ?idx = "map (\<lambda>k. offset + int k * P) [0..<py_range_len offset N P]"
  have "\<forall>i \<in> set ?idx. 0 \<le> i \<and> i < int (length xs)"
    unfolding stride_index_set [OF assms(1)] using assms(2,3) by auto
  then have "np_take xs ?idx = Inr (map (\<lambda>i. xs ! nat i) ?idx)"
    by (rule np_take_in_bounds)
  then show ?thesis
    by (simp add: stroboscopic_sample_def np_arange_int_eq [OF assms(1)] comp_def)
qed








lemma simulate_100:
  assumes "odeint_contract odeint"
  shows "\<exists>t theta theta_dot theta_mod.
           simulate odeint F0 100 100 = Inr (t, theta, theta_dot, theta_mod) \<and>
           length t = 10000 \<and> length theta = 10000 \<and>
           length theta_dot = 10000 \<and> length theta_mod = 10000"
proof -
  obtain ts where ts: "time_grid 100 100 = Inr ts" "length ts = nat \<lceil>100 * real_of_int 100\<rceil>"
    using time_grid_Inr [of 100 100] by auto
  have len: "length ts = 10000"
    using ts(2) by simp
  then have "ts \<noteq> []"
    by auto
  then obtain sol where sol: "odeint (pendulum_rhs F0) (0, 0) ts = Inr sol" "length sol = length ts"
    using assms pendulum_rhs_total unfolding odeint_contract_def by blast
  have "simulate odeint F0 100 100 = Inr (ts, map fst sol, map snd sol, map theta_mod_of (map fst sol))"
    by (simp add: simulate_unfold [OF ts(1)] sol(1))
  then show ?thesis
    using sol(2) len by simp
qed

lemma py_range_len_plot: "py_range_len 100 10000 100 = 99"
  by (simp add: py_range_len_def)

lemma plot_results_section:
  assumes "odeint_contract odeint"
  shows "\<exists>t theta theta_dot theta_mod.
           simulate odeint F0 100 100 = Inr (t, theta, theta_dot, theta_mod) \<and>
           plot_results odeint F0 =
             Inr ((take 1000 t, take 1000 theta), (theta_mod, theta_dot),
                  (map (\<lambda>k. theta_mod ! nat (100 + int k * 100)) [0..<99],
                   map (\<lambda>k. theta_dot ! nat (100 + int k * 100)) [0..<99]))"
proof -
  obtain t theta theta_dot theta_mod where sim:
      "simulate odeint F0 100 100 = Inr (t, theta, theta_dot, theta_mod)"
      "length t = 10000" "length theta_dot = 10000" "length theta_mod = 10000"
    using simulate_100 [OF assms, of F0] by blast
  have pm: "stroboscopic_sample theta_mod (int (length t)) 100 100 =
            Inr (map (\<lambda>k. theta_mod ! nat (100 + int k * 100)) [0..<99])"
    using stroboscopic_sample_eq [of 100 100 "int (length t)" theta_mod] sim(2,4)
    by (simp add: py_range_len_plot)
  have pd: "stroboscopic_sample theta_dot (int (length t)) 100 100 =
            Inr (map (\<lambda>k. theta_dot ! nat (100 + int k * 100)) [0..<99])"
    using stroboscopic_sample_eq [of 100 100 "int (length t)" theta_dot] sim(2,3)
    by (simp add: py_range_len_plot)
  have "plot_results odeint F0 =
             Inr ((take 1000 t, take 1000 theta), (theta_mod, theta_dot),
                  (map (\<lambda>k. theta_mod ! nat (100 + int k * 100)) [0..<99],
                   map (\<lambda>k. theta_dot ! nat (100 + int k * 100)) [0..<99]))"
    unfolding plot_results_def sim(1) by (simp only: sum.case prod.case pm pd)
  then show ?thesis
    using sim(1) by blast
qed

section \<open>The claims\<close>




text \<open>
  C2. For a state \<open>(theta, theta_dot)\<close>, a time \<open>t\<close> and parameters with \<open>m > 0\<close> and
  \<open>l > 0\<close>, \<open>pendulum_deriv\<close> returns the pair of \<open>theta_dot\<close> and
  \<open>- (b/m) * theta_dot - (g/l) * sin theta + (F0/(m*l)) * cos (omega_d * t)\<close>; it is
  a function of its arguments alone.
\<close>

theorem C2_pendulum_deriv:
  assumes "0 < m" and "0 < l"
  shows "pendulum_deriv (theta, theta_dot) t b m g l F0 omega_d =
         Inr (theta_dot,
              - (b / m) * theta_dot - (g / l) * sin theta + (F0 / (m * l)) * cos (omega_d * t))"
  using assms by (simp add: pendulum_deriv_def)

text \<open>
  An instance of C2_pendulum_deriv: state \<open>(0, 3)\<close> at time 0 with \<open>b = 5\<close>,
  \<open>m = 1\<close>, \<open>g = 9.8\<close>, \<open>l = 2\<close>, \<open>F0 = 4\<close>, \<open>omega_d = 7\<close>.
\<close>

theorem C2_pendulum_deriv_witness:
  "(0::real) < 1 \<and> (0::real) < 2 \<and>
   pendulum_deriv (0, 3) 0 5 1 9.8 2 4 7 = Inr (3, - 13)"
  using C2_pendulum_deriv [of 1 2 0 3 0 5 "9.8" 4 7] by simp

text \<open>
  C3. For an array of length \<open>N\<close>, a stride \<open>P \<ge> 1\<close> and an offset \<open>offset \<ge> 0\<close>,
  the sampler returns the elements at the indices
  \<open>offset, offset + P, offset + 2 * P, ...\<close> below \<open>N\<close>, all of them and in increasing
  order; their number is \<open>len(range(offset, N, P))\<close>. The script's \<open>plot_results\<close>
  samples \<open>theta_mod\<close> and \<open>theta_dot\<close> so with offset and stride 100, the default
  \<open>points_per_period\<close>, when the integrator returns one state per grid point.
\<close>

theorem C3_stroboscopic_sample:
  assumes "1 \<le> P" and "0 \<le> offset" and "N = int (length xs)"
  shows "(\<exists>poincare_idx.
           np_arange_int offset N P = Inr poincare_idx \<and>
           set poincare_idx = {i. offset \<le> i \<and> i < N \<and> (i - offset) mod P = 0} \<and>
           sorted_wrt (<) poincare_idx \<and>
           length poincare_idx = py_range_len offset N P \<and>
           stroboscopic_sample xs N P offset = Inr (map (\<lambda>i. xs ! nat i) poincare_idx) \<and>
           stroboscopic_sample xs N P offset =
             Inr (map (\<lambda>k. xs ! nat (offset + int k * P)) [0..<py_range_len offset N P])) \<and>
         (odeint_contract odeint \<longrightarrow>
            (\<exists>t theta theta_dot theta_mod series phase pm pd.
               simulate odeint F0 100 100 = Inr (t, theta, theta_dot, theta_mod) \<and>
               plot_results odeint F0 = Inr (series, phase, (pm, pd)) \<and>
               stroboscopic_sample theta_mod (int (length t)) 100 100 = Inr pm \<and>
               stroboscopic_sample theta_dot (int (length t)) 100 100 = Inr pd \<and>
               length pm = py_range_len 100 (int (length t)) 100 \<and>
               length pd = py_range_len 100 (int (length t)) 100))"
proof -
  let ?idx = "map (\<lambda>k. offset + int k * P) [0..<py_range_len offset N P]"
  have P: "0 < P"
    using assms(1) by simp
  have idx: "np_arange_int offset N P = Inr ?idx"
    using P by (rule np_arange_int_eq)
  have set_idx: "set ?idx = {i. offset \<le> i \<and> i < N \<and> (i - offset) mod P = 0}"
    using P by (rule stride_index_set)
  have sample': "stroboscopic_sample xs N P offset =
      Inr (map (\<lambda>k. xs ! nat (offset + int k * P)) [0..<py_range_len offset N P])"
    using P assms(2,3) by (intro stroboscopic_sample_eq) simp_all
  then have sample: "stroboscopic_sample xs N P offset = Inr (map (\<lambda>i. xs ! nat i) ?idx)"
    by (simp add: comp_def)
  have len: "length ?idx = py_range_len offset N P"
    by simp
  have general: "\<exists>poincare_idx.
           np_arange_int offset N P = Inr poincare_idx \<and>
           set poincare_idx = {i. offset \<le> i \<and> i < N \<and> (i - offset) mod P = 0} \<and>
           sorted_wrt (<) poincare_idx \<and>
           length poincare_idx = py_range_len offset N P \<and>
           stroboscopic_sample xs N P offset = Inr (map (\<lambda>i. xs ! nat i) poincare_idx) \<and>
           stroboscopic_sample xs N P offset =
             Inr (map (\<lambda>k. xs ! nat (offset + int k * P)) [0..<py_range_len offset N P])"
    using idx set_idx stride_index_sorted [OF P] len sample sample'
    by (intro exI [of _ ?idx] conjI)
  have script: "\<exists>t theta theta_dot theta_mod series phase pm pd.
               simulate odeint F0 100 100 = Inr (t, theta, theta_dot, theta_mod) \<and>
               plot_results odeint F0 = Inr (series, phase, (pm, pd)) \<and>
               stroboscopic_sample theta_mod (int (length t)) 100 100 = Inr pm \<and>
               stroboscopic_sample theta_dot (int (length t)) 100 100 = Inr pd \<and>
               length pm = py_range_len 100 (int (length t)) 100 \<and>
               length pd = py_range_len 100 (int (length t)) 100"
    if contract: "odeint_contract odeint"
  proof -
    obtain t theta theta_dot theta_mod where sim:
        "simulate odeint F0 100 100 = Inr (t, theta, theta_dot, theta_mod)"
        "length t = 10000" "length theta_dot = 10000" "length theta_mod = 10000"
      using simulate_100 [OF contract, of F0] by blast
    let ?n = "py_range_len 100 (int (length t)) 100"
    let ?pm = "map (\<lambda>k. theta_mod ! nat (100 + int k * 100)) [0..<?n]"
    let ?pd = "map (\<lambda>k. theta_dot ! nat (100 + int k * 100)) [0..<?n]"
    have pm: "stroboscopic_sample theta_mod (int (length t)) 100 100 = Inr ?pm"
      using sim(2,4) by (intro stroboscopic_sample_eq) simp_all
    have pd: "stroboscopic_sample theta_dot (int (length t)) 100 100 = Inr ?pd"
      using sim(2,3) by (intro stroboscopic_sample_eq) simp_all
    have "plot_results odeint F0 =
            Inr ((take 1000 t, take 1000 theta), (theta_mod, theta_dot), (?pm, ?pd))"
      unfolding plot_results_def sim(1) by (simp only: sum.case prod.case pm pd)
    moreover have "length ?pm = ?n" and "length ?pd = ?n"
      by simp_all
    ultimately show ?thesis
      using sim(1) pm pd by blast
  qed
  show ?thesis
    using general script by blast
qed

text \<open>
  An instance of C3_stroboscopic_sample: seven elements, stride 2 and offset 2 select
  the elements at the indices 2, 4 and 6; and \<open>plot_results\<close> with the Euler
  integrator at the amplitude 15.
\<close>

theorem C3_stroboscopic_sample_witness:
  "(1::int) \<le> 2 \<and> (0::int) \<le> 2 \<and> (7::int) = int (length [10, 11, 12, 13, 14, 15, 16 :: nat]) \<and>
   py_range_len 2 7 2 = 3 \<and>
   stroboscopic_sample [10, 11, 12, 13, 14, 15, 16 :: nat] 7 2 2 = Inr [12, 14, 16] \<and>
   odeint_contract euler_odeint \<and>
   (\<exists>series phase pm pd. plot_results euler_odeint 15 = Inr (series, phase, (pm, pd)))"
proof -
  have len: "py_range_len 2 7 2 = 3"
    by (simp add: py_range_len_def)
  have upt: "[0..<3] = [0, 1, 2]"
    by (simp add: upt_rec)
  note inst = C3_stroboscopic_sample [of 2 2 7 "[10, 11, 12, 13, 14, 15, 16 :: nat]" euler_odeint 15]
  have "stroboscopic_sample [10, 11, 12, 13, 14, 15, 16 :: nat] 7 2 2 = Inr [12, 14, 16]"
    using inst len upt by (auto simp: eval_nat_numeral)
  moreover have "\<exists>series phase pm pd. plot_results euler_odeint 15 = Inr (series, phase, (pm, pd))"
    using inst euler_odeint_contract by auto
  ultimately show ?thesis
    using len euler_odeint_contract by simp
qed











text \<open>
  C9. In the output of \<open>simulate\<close> the array \<open>theta_dot\<close> is the velocity column of
  the integrator's solution, unchanged; only the angle column is normalized, element by
  element, and the normalized trajectory has the length of the solution.
\<close>

theorem C9_velocity_unchanged:
  assumes "simulate odeint F0 t_max points_per_period = Inr (t, theta, theta_dot, theta_mod)"
  shows "\<exists>sol. odeint (pendulum_rhs F0) (0, 0) t = Inr sol \<and>
               theta = map fst sol \<and> theta_dot = map snd sol \<and>
               theta_mod = map theta_mod_of theta \<and>
               length theta_mod = length sol \<and> length theta_dot = length sol \<and>
               zip theta_mod theta_dot = map (\<lambda>(th, thd). (theta_mod_of th, thd)) sol"
proof -
  from assms obtain sol where sol: "odeint (pendulum_rhs F0) (0, 0) t = Inr sol"
      "theta = map fst sol" "theta_dot = map snd sol" "theta_mod = map theta_mod_of theta"
    by (auto simp: simulate_def Let_def split: sum.splits)
  have "zip (map theta_mod_of (map fst sol)) (map snd sol) =
        map (\<lambda>(th, thd). (theta_mod_of th, thd)) sol"
    by (induction sol) auto
  then show ?thesis
    using sol by simp
qed

text \<open>
  An instance of C9_velocity_unchanged: the one-point run with the Euler integrator.
\<close>

theorem C9_velocity_unchanged_witness:
  "simulate euler_odeint 1 1 1 = Inr ([0], [0], [0], [0]) \<and>
   (\<exists>sol. euler_odeint (pendulum_rhs 1) (0, 0) [0] = Inr sol \<and>
          [0] = map snd sol \<and> length [0::real] = length sol)"
  using C9_velocity_unchanged [of euler_odeint 1 1 1 "[0]" "[0]" "[0]" "[0]"]
    simulate_euler_one_point
  by simp

text \<open>
  C10. With an integrator that returns one state per grid point, \<open>simulate(F0, 200)\<close>
  returns arrays of 20000 elements for every amplitude, and every index of
  \<open>np.arange(100 * 100, 200 * 100, 100)\<close>, that is \<open>10000 + 100 * k\<close> for
  \<open>k < 100\<close>, lies in \<open>[0, len(theta_mod))\<close>: the indexing of line 72 raises no
  IndexError.
\<close>

theorem C10_indices_in_bounds:
  assumes "odeint_contract odeint"
  shows "\<exists>t theta theta_dot theta_mod poincare_idx sel.
           simulate odeint F0 200 100 = Inr (t, theta, theta_dot, theta_mod) \<and>
           np_arange_int (100 * 100) (200 * 100) 100 = Inr poincare_idx \<and>
           poincare_idx = map (\<lambda>k. 10000 + int k * 100) [0..<100] \<and>
           (\<forall>i \<in> set poincare_idx. 0 \<le> i \<and> i < int (length theta_mod)) \<and>
           np_take theta_mod poincare_idx = Inr sel"
proof -
  let ?idx = "map (\<lambda>k. 10000 + int k * 100) [0..<100]"
  obtain t theta theta_dot theta_mod where sim:
      "simulate odeint F0 200 100 = Inr (t, theta, theta_dot, theta_mod)"
      "length theta_mod = 20000"
    using simulate_200 [OF assms, of F0] by blast
  have bounds: "\<forall>i \<in> set ?idx. 0 \<le> i \<and> i < int (length theta_mod)"
    using sweep_idx_bounds sim(2) by auto
  have "np_take theta_mod ?idx = Inr (map (\<lambda>i. theta_mod ! nat i) ?idx)"
    using bounds by (rule np_take_in_bounds)
  then show ?thesis
    using sim(1) np_arange_int_sweep bounds by blast
qed

text \<open>
  An instance of C10_indices_in_bounds: the Euler integrator meets the contract, at the
  amplitude 15.
\<close>

theorem C10_indices_in_bounds_witness:
  "odeint_contract euler_odeint \<and>
   (\<exists>t theta theta_dot theta_mod sel.
      simulate euler_odeint 15 200 100 = Inr (t, theta, theta_dot, theta_mod) \<and>
      np_take theta_mod (map (\<lambda>k. 10000 + int k * 100) [0..<100]) = Inr sel)"
  using C10_indices_in_bounds [OF euler_odeint_contract, of 15] euler_odeint_contract
  by blast

end
